theory Spec2Isabelle
  imports Complex_Main "HOL-Library.Log_Nat"
begin

section \<open>JavaScript values used by the monitor\<close>

text \<open>
  Timestamps (\<open>Date.now()\<close>), response times and counters are JavaScript numbers that hold
  integers far below \<open>2^53\<close>; they are modelled as \<open>int\<close>. A property that may be
  \<open>null\<close>, \<open>undefined\<close> or absent is an \<open>option\<close>. Reading a property of
  \<open>undefined\<close> raises a \<open>TypeError\<close>, which is a value of the model.
\<close>

datatype exn = TypeError

text \<open>\<open>String.prototype.includes\<close>: the pattern occurs as a contiguous substring.\<close>

fun startsWith :: "string \<Rightarrow> string \<Rightarrow> bool" where
  "startsWith s [] = True"
| "startsWith [] (p # ps) = False"
| "startsWith (c # cs) (p # ps) = (c = p \<and> startsWith cs ps)"

fun str_includes :: "string \<Rightarrow> string \<Rightarrow> bool" where
  "str_includes [] p = (p = [])"
| "str_includes (c # cs) p = (startsWith (c # cs) p \<or> str_includes cs p)"

text \<open>
  JavaScript falsiness (\<open>!v\<close>) of a string-or-missing value and of a number-or-null value:
  the empty string and the number zero are falsy, as \<open>null\<close> and \<open>undefined\<close> are.
\<close>

definition falsy_str :: "string option \<Rightarrow> bool" where
  "falsy_str v = (case v of None \<Rightarrow> True | Some s \<Rightarrow> s = [])"

definition falsy_num :: "int option \<Rightarrow> bool" where
  "falsy_num v = (case v of None \<Rightarrow> True | Some n \<Rightarrow> n = 0)"

section \<open>Double-precision numbers\<close>

text \<open>
  The quotients and products of the performance tracker are IEEE 754 double-precision
  operations. A finite double is modelled by the rational number it denotes, and an
  operation by the exact result rounded to the nearest double, ties to the even
  significand: \<open>to_double\<close> scales its argument into \<open>[2^52, 2^53)\<close>, rounds there to
  the nearest integer and scales back. The exponent is unbounded: overflow, subnormal
  numbers and \<open>NaN\<close> are not modelled, the monitor's values staying far inside the
  normal range. Integers below \<open>2^53\<close> are doubles, so a count or a sum of milliseconds
  converts exactly.
\<close>

text \<open>For positive \<open>x\<close>, the exponent \<open>f\<close> with \<open>2^f \<le> x < 2^(f+1)\<close>.\<close>

definition floor_log2 :: "rat \<Rightarrow> int" where
  "floor_log2 x =
     (case quotient_of x of (a, b) \<Rightarrow>
        (let k = bitlen a - bitlen b in if 2 powi k \<le> x then k else k - 1))"

definition round_half_even :: "rat \<Rightarrow> int" where
  "round_half_even y =
     (let f = \<lfloor>y\<rfloor>; d = y - of_int f
      in if d < 1 / 2 then f else if 1 / 2 < d then f + 1 else if even f then f else f + 1)"

definition to_double :: "rat \<Rightarrow> rat" where
  "to_double x =
     (if x = 0 then 0
      else (let e = floor_log2 \<bar>x\<bar> - 52
            in of_int (round_half_even (x / 2 powi e)) * 2 powi e))"

text \<open>The operators \<open>-\<close>, \<open>*\<close> and \<open>/\<close> on doubles; the divisor is never zero where used.\<close>

definition double_sub :: "rat \<Rightarrow> rat \<Rightarrow> rat" where
  "double_sub x y = to_double (x - y)"

definition double_mul :: "rat \<Rightarrow> rat \<Rightarrow> rat" where
  "double_mul x y = to_double (x * y)"

definition double_div :: "rat \<Rightarrow> rat \<Rightarrow> rat" where
  "double_div x y = to_double (x / y)"

section \<open>errorHandler.js\<close>

datatype ErrorTypes =
    NETWORK_ERROR | TIMEOUT_ERROR | AUTH_ERROR | API_ERROR
  | INVALID_RESPONSE | NO_PIX_CODE | UNKNOWN_ERROR

text \<open>
  The error objects that reach the handler: \<open>code\<close>, \<open>message\<close>, \<open>response.status\<close>
  and the \<open>type\<close> tag set by \<open>validatePixResponse\<close>, each possibly absent.
  \<open>messageEnumerable\<close> records whether \<open>message\<close> is an enumerable own property: the
  \<open>Error\<close> constructor creates it non-enumerable, and an object spread copies enumerable
  own properties only.
\<close>

record http_response =
  status :: "int option"

record js_error =
  code :: "string option"
  message :: "string option"
  messageEnumerable :: bool
  response :: "http_response option"
  etype :: "string option"
  missingFields :: "string list"

text \<open>
  \<open>classifyError\<close>, lines 57-83. \<open>error.message.includes\<close> is evaluated only when the
  first disjunct is false, and raises when \<open>message\<close> is undefined. A missing
  \<open>status\<close> compares false with every number.
\<close>

definition classifyError :: "js_error \<Rightarrow> exn + ErrorTypes" where
  "classifyError error =
     (if code error = Some ''ECONNABORTED'' then Inr TIMEOUT_ERROR
      else case message error of
        None \<Rightarrow> Inl TypeError
      | Some m \<Rightarrow>
          if str_includes m ''timeout'' then Inr TIMEOUT_ERROR
          else if code error = Some ''ENOTFOUND'' \<or> code error = Some ''ECONNREFUSED''
            then Inr NETWORK_ERROR
          else case response error of
            None \<Rightarrow> Inr UNKNOWN_ERROR
          | Some r \<Rightarrow>
              (case status r of
                 None \<Rightarrow> Inr UNKNOWN_ERROR
               | Some s \<Rightarrow>
                   if s = 401 \<or> s = 403 then Inr AUTH_ERROR
                   else if 400 \<le> s \<and> s < 500 then Inr API_ERROR
                   else if 500 \<le> s then Inr API_ERROR
                   else Inr UNKNOWN_ERROR))"

text \<open>
  One entry of \<open>this.errorState\<close>; \<open>lastNotification\<close> is \<open>null\<close> until the first
  notification.
\<close>

record ErrorOccurrence =
  occ_count :: int
  firstOccurrence :: int
  lastOccurrence :: int
  lastNotification :: "int option"

type_synonym errorState = "ErrorTypes \<rightharpoonup> ErrorOccurrence"

text \<open>
  \<open>shouldSendNotification\<close>, lines 221-231. \<open>cooldownMinutes\<close> is
  \<open>config.monitor.notificationCooldownMinutes\<close> and \<open>clock\<close> the value \<open>Date.now()\<close>
  returns on line 228. The guard \<open>!state.lastNotification\<close> is a truthiness test: it
  holds for \<open>null\<close> and for the number zero.
\<close>

definition shouldSendNotification :: "int \<Rightarrow> errorState \<Rightarrow> ErrorTypes \<Rightarrow> int \<Rightarrow> bool" where
  "shouldSendNotification cooldownMinutes st errorType clock =
     (case st errorType of
        None \<Rightarrow> True
      | Some state \<Rightarrow>
          (case lastNotification state of
             None \<Rightarrow> True
           | Some t \<Rightarrow>
               if t = 0 then True
               else (let cooldownMs = cooldownMinutes * 60 * 1000;
                         timeSinceLastNotification = clock - t
                     in timeSinceLastNotification \<ge> cooldownMs)))"

record handled =
  h_type :: ErrorTypes
  shouldNotify :: bool
  errorCount :: int

text \<open>
  \<open>handleError\<close>, lines 181-216. \<open>now\<close> is the reading of \<open>Date.now()\<close> on line 183,
  \<open>clock\<close> the later reading inside \<open>shouldSendNotification\<close>. The classifier runs
  first, so when it raises the state is untouched. The text of the message
  (\<open>formatErrorMessage\<close>) is not modelled; it reads the state and changes nothing.
\<close>

definition handleError ::
  "int \<Rightarrow> errorState \<Rightarrow> js_error \<Rightarrow> int \<Rightarrow> int \<Rightarrow> exn + (handled \<times> errorState)" where
  "handleError cooldownMinutes st error now clock =
     (case classifyError error of
        Inl x \<Rightarrow> Inl x
      | Inr errorType \<Rightarrow>
          (let s0 = (case st errorType of
                       None \<Rightarrow> \<lparr>occ_count = 0, firstOccurrence = now,
                                lastOccurrence = now, lastNotification = None\<rparr>
                     | Some s \<Rightarrow> s);
               s1 = s0\<lparr>occ_count := occ_count s0 + 1, lastOccurrence := now\<rparr>;
               st1 = st(errorType \<mapsto> s1);
               sn = shouldSendNotification cooldownMinutes st1 errorType clock;
               s2 = (if sn then s1\<lparr>lastNotification := Some now\<rparr> else s1);
               st2 = st1(errorType \<mapsto> s2)
           in Inr (\<lparr>h_type = errorType, shouldNotify = sn, errorCount = occ_count s2\<rparr>, st2)))"

text \<open>\<open>clearErrorState\<close>, lines 236-244: one kind, or all of them when called without one.\<close>

definition clearErrorState :: "ErrorTypes option \<Rightarrow> errorState \<Rightarrow> errorState" where
  "clearErrorState errorType st =
     (case errorType of Some t \<Rightarrow> st(t := None) | None \<Rightarrow> Map.empty)"

section \<open>for4Service.js\<close>

record pix_data =
  pd_id :: "string option"
  pd_status :: "string option"
  pixCode :: "string option"
  pixQrCode :: "string option"

definition requiredFields :: "(string \<times> (pix_data \<Rightarrow> string option)) list" where
  "requiredFields =
     [(''id'', pd_id), (''status'', pd_status), (''pixCode'', pixCode), (''pixQrCode'', pixQrCode)]"

text \<open>\<open>Array.prototype.join\<close>.\<close>

fun join :: "string \<Rightarrow> string list \<Rightarrow> string" where
  "join sep [] = []"
| "join sep [x] = x"
| "join sep (x # y # ys) = x @ sep @ join sep (y # ys)"

text \<open>
  The two message literals of \<open>validatePixResponse\<close>, with their accented letters as
  UTF-8 bytes.
\<close>

definition msg_missing_fields :: string where
  "msg_missing_fields =
     ''Campos obrigat'' @ [CHR 0xC3, CHR 0xB3] @ ''rios faltando na resposta: ''"

definition msg_no_pix_code :: string where
  "msg_no_pix_code =
     ''Transa'' @ [CHR 0xC3, CHR 0xA7, CHR 0xC3, CHR 0xA3] @ ''o criada mas sem c''
       @ [CHR 0xC3, CHR 0xB3] @ ''digo PIX''"

text \<open>
  \<open>validatePixResponse\<close>, lines 120-151: \<open>Inl\<close> is the thrown \<open>Error\<close>. The warning
  logged for an unexpected status has no effect on the result.
\<close>

definition validatePixResponse :: "pix_data \<Rightarrow> js_error + unit" where
  "validatePixResponse data =
     (let missing = map fst (filter (\<lambda>(field, get). falsy_str (get data)) requiredFields)
      in if length missing > 0 then
           (let error = \<lparr>code = None,
                          message = Some (msg_missing_fields @ join '', '' missing),
                          messageEnumerable = False,
                          response = None,
                          etype = Some ''INVALID_RESPONSE'',
                          missingFields = missing\<rparr>
            in Inl (if falsy_str (pixCode data) \<or> falsy_str (pixQrCode data)
                    then error\<lparr>etype := Some ''NO_PIX_CODE'', message := Some msg_no_pix_code\<rparr>
                    else error))
         else Inr ())"

text \<open>
  The object thrown by the \<open>catch\<close> of \<open>createPixTransaction\<close>, lines 109-113:
  \<open>{...error, trackingId, isFor4Error: true}\<close>. The spread keeps the enumerable own
  properties of the caught error, so a non-enumerable \<open>message\<close> is lost.
\<close>

definition spreadError :: "js_error \<Rightarrow> js_error" where
  "spreadError error =
     (if messageEnumerable error then error else error\<lparr>message := None\<rparr>)"

record probe_result =
  pr_data :: pix_data
  pr_responseTime :: int

text \<open>
  \<open>createPixTransaction\<close>, lines 67-115. \<open>post\<close> is the outcome of the HTTP call:
  the rejection of the client, or the response body with the measured response time.
\<close>

definition createPixTransaction :: "js_error + (pix_data \<times> int) \<Rightarrow> js_error + probe_result" where
  "createPixTransaction post =
     (case post of
        Inl error \<Rightarrow> Inl (spreadError error)
      | Inr (data, rt) \<Rightarrow>
          (case validatePixResponse data of
             Inl error \<Rightarrow> Inl (spreadError error)
           | Inr u \<Rightarrow> Inr \<lparr>pr_data = data, pr_responseTime = rt\<rparr>))"

section \<open>dataGenerator.js: the monitoring-hours window\<close>

text \<open>
  \<open>isWithinMonitoringHours\<close>, lines 165-177 of the utilities file. \<open>startHour\<close> and
  \<open>endHour\<close> are \<open>config.monitor.startHour\<close> and \<open>endHour\<close> (\<open>null\<close> when the variable
  is not set, else the parsed number); \<open>currentHour\<close> is \<open>moment().hour()\<close>.
  The guard \<open>!startHour || !endHour\<close> is a truthiness test.
\<close>

definition isWithinMonitoringHours :: "int option \<Rightarrow> int option \<Rightarrow> int \<Rightarrow> bool" where
  "isWithinMonitoringHours startHour endHour currentHour =
     (if falsy_num startHour \<or> falsy_num endHour then True
      else (case (startHour, endHour) of
              (Some s, Some e) \<Rightarrow>
                if e < s then currentHour \<ge> s \<or> currentHour < e
                else currentHour \<ge> s \<and> currentHour < e
            | _ \<Rightarrow> True))"

section \<open>monitor.js: the check orchestrator\<close>

text \<open>
  \<open>this.stats\<close>. Of an error summary (\<open>errors\<close>, \<open>lastError\<close>) the kind is kept; the
  formatted times, the message text and \<open>lastCheck\<close> are not modelled.
\<close>

record MonitorStats =
  totalChecks :: int
  successfulChecks :: int
  failedChecks :: int
  totalResponseTime :: int
  errors :: "ErrorTypes list"
  lastError :: "ErrorTypes option"
  isHealthy :: bool

datatype notification = RecoveryAlert | ErrorAlert ErrorTypes

text \<open>
  The state a check cycle works on: the monitor's own fields, the error handler's state,
  and the calls made to the notification service, oldest first.
\<close>

record monitor =
  stats :: MonitorStats
  isPaused :: bool
  errorState :: errorState
  sent :: "notification list"

record monitor_config =
  startHour :: "int option"
  endHour :: "int option"
  notificationCooldownMinutes :: int

datatype outcome = Skipped | Completed | Raised exn

text \<open>\<open>Array.prototype.slice(-k)\<close>: the last \<open>k\<close> elements; \<open>slice(-0)\<close> is \<open>slice(0)\<close>.\<close>

definition slice_last :: "nat \<Rightarrow> 'a list \<Rightarrow> 'a list" where
  "slice_last k xs = (if k = 0 then xs else drop (length xs - k) xs)"

text \<open>
  \<open>runHealthCheck\<close>, lines 118-210. \<open>post\<close> is the outcome of the HTTP call,
  \<open>currentHour\<close> the hour of the wall clock, \<open>now\<close> and \<open>clock\<close> the two readings of
  \<open>Date.now()\<close> that \<open>handleError\<close> takes. The notification service swallows its
  own failures, so a call to it always returns. When \<open>handleError\<close> raises inside the
  \<open>catch\<close> block, the counters updated before the call stay updated.
\<close>

definition runHealthCheck ::
  "monitor_config \<Rightarrow> js_error + (pix_data \<times> int) \<Rightarrow> int \<Rightarrow> int \<Rightarrow> int \<Rightarrow> monitor
     \<Rightarrow> monitor \<times> outcome" where
  "runHealthCheck config post currentHour now clock m =
     (if \<not> isWithinMonitoringHours (startHour config) (endHour config) currentHour
        then (m, Skipped)
      else if isPaused m then (m, Skipped)
      else case createPixTransaction post of
        Inr result \<Rightarrow>
          (let st1 = (stats m)\<lparr>totalChecks := totalChecks (stats m) + 1,
                               successfulChecks := successfulChecks (stats m) + 1,
                               totalResponseTime :=
                                 totalResponseTime (stats m) + pr_responseTime result\<rparr>;
               m1 = (if \<not> isHealthy st1
                     then m\<lparr>stats := st1\<lparr>isHealthy := True\<rparr>, sent := sent m @ [RecoveryAlert]\<rparr>
                     else m\<lparr>stats := st1\<rparr>)
           in (m1\<lparr>errorState := clearErrorState None (errorState m1)\<rparr>, Completed))
      | Inl error \<Rightarrow>
          (let st1 = (stats m)\<lparr>totalChecks := totalChecks (stats m) + 1,
                               failedChecks := failedChecks (stats m) + 1,
                               isHealthy := False\<rparr>
           in case handleError (notificationCooldownMinutes config) (errorState m) error now clock of
                Inl x \<Rightarrow> (m\<lparr>stats := st1\<rparr>, Raised x)
              | Inr (errorInfo, es) \<Rightarrow>
                  (let pushed = errors st1 @ [h_type errorInfo];
                       st2 = st1\<lparr>errors := (if length pushed > 100 then slice_last 100 pushed
                                              else pushed),
                                  lastError := Some (h_type errorInfo)\<rparr>
                   in (m\<lparr>stats := st2, errorState := es,
                          sent := (if shouldNotify errorInfo
                                   then sent m @ [ErrorAlert (h_type errorInfo)] else sent m)\<rparr>,
                       Completed))))"

section \<open>performanceTracker.js\<close>

text \<open>
  Times are milliseconds of the wall clock in the configured time zone. The key
  \<open>YYYY-MM-DD-HH\<close> of an hourly bucket is modelled by the number of the hour
  (\<open>now div 3600000\<close>), the key \<open>YYYY-MM-DD\<close> of a daily bucket by the number of the day,
  and subtracting \<open>i\<close> hours from a moment lowers the hour number by \<open>i\<close>.
  \<open>Infinity\<close>, the initial value of every \<open>minTime\<close>, is \<open>None\<close>.
\<close>

record sample =
  s_time :: int
  responseTime :: int
  success :: bool
  hasPixCode :: bool

record current_metrics =
  cur_count :: int
  cur_totalTime :: int
  cur_minTime :: "int option"
  cur_maxTime :: int
  samples :: "sample list"

record hour_bucket =
  hb_count :: int
  hb_totalTime :: int
  hb_minTime :: "int option"
  hb_maxTime :: int
  hb_failures :: int

record hour_breakdown =
  bd_count :: int
  bd_totalTime :: int
  bd_avgTime :: int

record day_bucket =
  db_count :: int
  db_totalTime :: int
  db_minTime :: "int option"
  db_maxTime :: int
  db_failures :: int
  hourlyBreakdown :: "int \<rightharpoonup> hour_breakdown"

record metrics =
  current :: current_metrics
  hourly :: "int \<rightharpoonup> hour_bucket"
  daily :: "int \<rightharpoonup> day_bucket"
  lastUpdate :: "int option"

text \<open>The metrics the constructor starts from, lines 206-217.\<close>

definition initialMetrics :: metrics where
  "initialMetrics =
     \<lparr>current = \<lparr>cur_count = 0, cur_totalTime = 0, cur_minTime = None, cur_maxTime = 0,
                  samples = []\<rparr>,
      hourly = Map.empty, daily = Map.empty, lastUpdate = None\<rparr>"

text \<open>\<open>Math.min(m, x)\<close> where \<open>m\<close> may be \<open>Infinity\<close>.\<close>

definition Math_min :: "int option \<Rightarrow> int \<Rightarrow> int option" where
  "Math_min m x = (case m of None \<Rightarrow> Some x | Some y \<Rightarrow> Some (min y x))"

text \<open>
  \<open>Math.round(a / b)\<close> for integers \<open>a\<close> and \<open>b \<noteq> 0\<close>: \<open>Math.round\<close> is
  \<open>\<lfloor>x + 1/2\<rfloor>\<close>, and the division of two integers below \<open>2^52\<close> is never rounded
  across a half, so the result is \<open>\<lfloor>(2a + b) / 2b\<rfloor>\<close>. Every call in the file has a
  count of at least one as divisor.
\<close>

definition Math_round_div :: "int \<Rightarrow> int \<Rightarrow> int" where
  "Math_round_div a b = (2 * a + b) div (2 * b)"

text \<open>\<open>cleanOldData\<close>, lines 339-355: buckets that start more than seven days ago go.\<close>

definition cleanOldData :: "int \<Rightarrow> metrics \<Rightarrow> metrics" where
  "cleanOldData now m =
     (let sevenDaysAgo = now - 7 * 86400000
      in m\<lparr>hourly := (\<lambda>hour. if hour * 3600000 < sevenDaysAgo then None else hourly m hour),
            daily := (\<lambda>day. if day * 86400000 < sevenDaysAgo then None else daily m day)\<rparr>)"

text \<open>
  \<open>recordResponseTime\<close>, lines 250-334. \<open>maxSamples\<close> is \<open>this.maxSamples\<close> (1000 in
  the constructor) and \<open>now\<close> the reading of the clock. Writing the file does not change
  the metrics.
\<close>

definition recordResponseTime :: "nat \<Rightarrow> int \<Rightarrow> int \<Rightarrow> bool \<Rightarrow> bool \<Rightarrow> metrics \<Rightarrow> metrics" where
  "recordResponseTime maxSamples now rt succ hasPix m =
     (let hour = now div 3600000;
          day = now div 86400000;
          c = current m;
          pushed = samples c @ [\<lparr>s_time = now, responseTime = rt, success = succ,
                                 hasPixCode = hasPix\<rparr>];
          c' = \<lparr>cur_count = cur_count c + 1,
                cur_totalTime = cur_totalTime c + rt,
                cur_minTime = Math_min (cur_minTime c) rt,
                cur_maxTime = max (cur_maxTime c) rt,
                samples = (if length pushed > maxSamples then slice_last maxSamples pushed
                           else pushed)\<rparr>;
          h = (case hourly m hour of
                 None \<Rightarrow> \<lparr>hb_count = 0, hb_totalTime = 0, hb_minTime = None, hb_maxTime = 0,
                          hb_failures = 0\<rparr>
               | Some b \<Rightarrow> b);
          h' = \<lparr>hb_count = hb_count h + 1,
                hb_totalTime = hb_totalTime h + rt,
                hb_minTime = Math_min (hb_minTime h) rt,
                hb_maxTime = max (hb_maxTime h) rt,
                hb_failures = (if succ then hb_failures h else hb_failures h + 1)\<rparr>;
          d = (case daily m day of
                 None \<Rightarrow> \<lparr>db_count = 0, db_totalTime = 0, db_minTime = None, db_maxTime = 0,
                          db_failures = 0, hourlyBreakdown = Map.empty\<rparr>
               | Some b \<Rightarrow> b);
          hourOfDay = hour mod 24;
          bd = (case hourlyBreakdown d hourOfDay of
                  None \<Rightarrow> \<lparr>bd_count = 0, bd_totalTime = 0, bd_avgTime = 0\<rparr>
                | Some b \<Rightarrow> b);
          bd' = \<lparr>bd_count = bd_count bd + 1,
                 bd_totalTime = bd_totalTime bd + rt,
                 bd_avgTime = Math_round_div (bd_totalTime bd + rt) (bd_count bd + 1)\<rparr>;
          d' = \<lparr>db_count = db_count d + 1,
                db_totalTime = db_totalTime d + rt,
                db_minTime = Math_min (db_minTime d) rt,
                db_maxTime = max (db_maxTime d) rt,
                db_failures = (if succ then db_failures d else db_failures d + 1),
                hourlyBreakdown = (hourlyBreakdown d)(hourOfDay \<mapsto> bd')\<rparr>
      in cleanOldData now
           \<lparr>current = c', hourly = (hourly m)(hour \<mapsto> h'), daily = (daily m)(day \<mapsto> d'),
            lastUpdate = Some now\<rparr>)"

record current_stats =
  cs_count :: int
  cs_average :: int
  cs_min :: int
  cs_max :: int
  last10 :: "(string \<times> int \<times> bool) list"

text \<open>
  \<open>getCurrentStats\<close>, lines 360-384. \<open>fmt\<close> renders a sample's time as \<open>HH:mm:ss\<close>
  (the moment library's work).
\<close>

definition getCurrentStats :: "(int \<Rightarrow> string) \<Rightarrow> metrics \<Rightarrow> current_stats" where
  "getCurrentStats fmt m =
     (let c = current m
      in if cur_count c = 0
         then \<lparr>cs_count = 0, cs_average = 0, cs_min = 0, cs_max = 0, last10 = []\<rparr>
         else \<lparr>cs_count = cur_count c,
               cs_average = Math_round_div (cur_totalTime c) (cur_count c),
               cs_min = (case cur_minTime c of None \<Rightarrow> 0 | Some x \<Rightarrow> x),
               cs_max = cur_maxTime c,
               last10 = map (\<lambda>s. (fmt (s_time s), responseTime s, success s))
                            (slice_last 10 (samples c))\<rparr>)"

text \<open>
  \<open>calculateRecentAverage\<close>, lines 482-499: the loop runs \<open>i\<close> from \<open>offset\<close> to
  \<open>offset + hours - 1\<close>. \<open>nowHour\<close> is the hour number of the clock. The quotient is
  a double.
\<close>

definition calculateRecentAverage :: "metrics \<Rightarrow> int \<Rightarrow> nat \<Rightarrow> nat \<Rightarrow> rat" where
  "calculateRecentAverage m nowHour hours offset =
     (let (totalTime, totalCount) =
            fold (\<lambda>i (tt, tc).
                    case hourly m (nowHour - int i) of
                      None \<Rightarrow> (tt, tc)
                    | Some hourData \<Rightarrow>
                        if hb_count hourData > 0
                        then (tt + hb_totalTime hourData, tc + hb_count hourData)
                        else (tt, tc))
                 [offset ..< offset + hours] (0, 0)
      in if totalCount > 0 then double_div (of_int totalTime) (of_int totalCount) else 0)"

text \<open>
  \<open>calculatePercentile\<close>, lines 504-509: \<open>percentile / 100\<close> and its product with the
  length are double operations, \<open>Math.ceil\<close> is exact. The index is clamped below only;
  an index past the end of the array reads \<open>undefined\<close>, which is \<open>None\<close>.
\<close>

definition calculatePercentile :: "int list \<Rightarrow> int \<Rightarrow> int option" where
  "calculatePercentile sortedArray percentile =
     (if length sortedArray = 0 then Some 0
      else (let index = \<lceil>double_mul (double_div (of_int percentile) 100)
                                     (of_nat (length sortedArray))\<rceil> - 1;
                j = max 0 index
            in if j < int (length sortedArray) then Some (sortedArray ! nat j) else None))"

datatype trend = Estavel | Piorando | Melhorando

record analysis =
  an_trend :: trend
  trendPercent :: rat
  p50 :: "int option"
  p95 :: "int option"
  p99 :: "int option"
  totalRequests :: int
  avgResponseTime :: int
  bestTime :: int
  worstTime :: int

text \<open>
  \<open>getPerformanceAnalysis\<close>, lines 427-477. The trend percent is computed in doubles,
  \<open>((recentAvg - olderAvg) / olderAvg) * 100\<close>, and compared with 10 and -10;
  \<open>trendPercent\<close> is \<open>Math.abs(trendPercent)\<close> before it is printed with one decimal. The
  list of critical hours and the emoji are not modelled. \<open>sort\<close> is the numeric sort
  \<open>(a, b) => a - b\<close>.
\<close>

definition getPerformanceAnalysis :: "(int \<Rightarrow> string) \<Rightarrow> int \<Rightarrow> metrics \<Rightarrow> analysis" where
  "getPerformanceAnalysis fmt nowHour m =
     (let currentStats = getCurrentStats fmt m;
          recentAvg = calculateRecentAverage m nowHour 6 0;
          olderAvg = calculateRecentAverage m nowHour 24 6;
          tp = (if recentAvg > 0 \<and> olderAvg > 0
                then double_mul (double_div (double_sub recentAvg olderAvg) olderAvg) 100
                else 0);
          tr = (if recentAvg > 0 \<and> olderAvg > 0
                then (if tp > 10 then Piorando else if tp < - 10 then Melhorando else Estavel)
                else Estavel);
          sortedSamples = sort (map responseTime (samples (current m)))
      in \<lparr>an_trend = tr,
          trendPercent = \<bar>tp\<bar>,
          p50 = calculatePercentile sortedSamples 50,
          p95 = calculatePercentile sortedSamples 95,
          p99 = calculatePercentile sortedSamples 99,
          totalRequests = cs_count currentStats,
          avgResponseTime = cs_average currentStats,
          bestTime = cs_min currentStats,
          worstTime = cs_max currentStats\<rparr>)"

section \<open>Derived notions and concrete inputs\<close>

text \<open>What the error state says about a kind: its notification timestamp and its count.\<close>

definition lastNotifiedAt :: "errorState \<Rightarrow> ErrorTypes \<Rightarrow> int option" where
  "lastNotifiedAt st k = (case st k of None \<Rightarrow> None | Some s \<Rightarrow> lastNotification s)"

definition consecutiveCount :: "errorState \<Rightarrow> ErrorTypes \<Rightarrow> int" where
  "consecutiveCount st k = (case st k of None \<Rightarrow> 0 | Some s \<Rightarrow> occ_count s)"

text \<open>
  A run of failures handed to \<open>handleError\<close> one after the other, each at its own time,
  the clock standing still within a call.
\<close>

fun handleAll ::
  "int \<Rightarrow> errorState \<Rightarrow> (js_error \<times> int) list \<Rightarrow> exn + (handled list \<times> errorState)" where
  "handleAll cd st [] = Inr ([], st)"
| "handleAll cd st ((error, now) # rest) =
     (case handleError cd st error now now of
        Inl x \<Rightarrow> Inl x
      | Inr (r, st') \<Rightarrow>
          (case handleAll cd st' rest of
             Inl x \<Rightarrow> Inl x
           | Inr (rs, st'') \<Rightarrow> Inr (r # rs, st'')))"

definition timeout_error :: js_error where
  "timeout_error =
     \<lparr>code = Some ''ECONNABORTED'', message = Some ''timeout of 30000ms exceeded'',
      messageEnumerable = True, response = None, etype = None, missingFields = []\<rparr>"

definition notified_state :: errorState where
  "notified_state =
     [TIMEOUT_ERROR \<mapsto> \<lparr>occ_count = 1, firstOccurrence = 1700000000000,
                         lastOccurrence = 1700000000000,
                         lastNotification = Some 1700000000000\<rparr>]"

definition data_without_pix_code :: pix_data where
  "data_without_pix_code =
     \<lparr>pd_id = Some ''tx_1'', pd_status = Some ''PENDING'', pixCode = None,
      pixQrCode = Some ''qr''\<rparr>"

definition no_pix_code_error :: js_error where
  "no_pix_code_error =
     \<lparr>code = None, message = Some msg_no_pix_code, messageEnumerable = False,
      response = None, etype = Some ''NO_PIX_CODE'', missingFields = [''pixCode'']\<rparr>"

definition server_error_without_message :: js_error where
  "server_error_without_message =
     \<lparr>code = Some ''ERR_BAD_RESPONSE'', message = None, messageEnumerable = False,
      response = Some \<lparr>status = Some 500\<rparr>, etype = None, missingFields = []\<rparr>"

definition unhealthy_monitor :: monitor where
  "unhealthy_monitor =
     \<lparr>stats = \<lparr>totalChecks = 5, successfulChecks = 3, failedChecks = 2,
                totalResponseTime = 900, errors = [TIMEOUT_ERROR, TIMEOUT_ERROR],
                lastError = Some TIMEOUT_ERROR, isHealthy = False\<rparr>,
      isPaused = False,
      errorState = notified_state,
      sent = [ErrorAlert TIMEOUT_ERROR]\<rparr>"

definition always_on :: monitor_config where
  "always_on = \<lparr>startHour = None, endHour = None, notificationCooldownMinutes = 30\<rparr>"

definition good_data :: pix_data where
  "good_data = \<lparr>pd_id = Some ''tx_2'', pd_status = Some ''PENDING'',
                 pixCode = Some ''000201'', pixQrCode = Some ''qr''\<rparr>"

text \<open>
  A sequence of \<open>recordResponseTime\<close> calls, each with the reading of the clock, the
  response time and the two flags; the sample and the response time of a call, and the
  entry \<open>last10\<close> shows for it.
\<close>

fun recordAll :: "nat \<Rightarrow> metrics \<Rightarrow> (int \<times> int \<times> bool \<times> bool) list \<Rightarrow> metrics" where
  "recordAll cap m [] = m"
| "recordAll cap m ((now, rt, succ, hasPix) # calls) =
     recordAll cap (recordResponseTime cap now rt succ hasPix m) calls"

definition sampleOf :: "int \<times> int \<times> bool \<times> bool \<Rightarrow> sample" where
  "sampleOf c = (case c of (now, rt, succ, hasPix) \<Rightarrow>
      \<lparr>s_time = now, responseTime = rt, success = succ, hasPixCode = hasPix\<rparr>)"

definition timeOf :: "int \<times> int \<times> bool \<times> bool \<Rightarrow> int" where
  "timeOf c = (case c of (now, rt, succ, hasPix) \<Rightarrow> rt)"

definition viewOf :: "(int \<Rightarrow> string) \<Rightarrow> int \<times> int \<times> bool \<times> bool \<Rightarrow> string \<times> int \<times> bool" where
  "viewOf fmt c = (case c of (now, rt, succ, hasPix) \<Rightarrow> (fmt now, rt, succ))"

text \<open>A time format that prints nothing, for concrete inputs.\<close>

definition no_format :: "int \<Rightarrow> string" where
  "no_format t = []"


definition two_samples :: "(int \<times> int \<times> bool \<times> bool) list" where
  "two_samples = [(1700000000000, 100, True, True), (1700000900000, 201, True, True)]"



definition call_at :: "nat \<Rightarrow> int \<times> int \<times> bool \<times> bool" where
  "call_at i = (1700000000000 + 900000 * int i, 100 + int i, True, True)"

text \<open>
  A slow sample, and a fast one 25 hours later: at the second the first lies in the bucket
  25 hours ago.
\<close>

definition slow_then_fast :: "(int \<times> int \<times> bool \<times> bool) list" where
  "slow_then_fast = [(1700000000000, 1000, True, True), (1700090000000, 100, True, True)]"

section \<open>The error state tracker\<close>

text \<open>What one call of \<open>handleError\<close> returns and stores, once the error has a kind.\<close>

lemma handleError_result:
  assumes "classifyError error = Inr K"
  shows "handleError cd st error now clock =
           Inr (\<lparr>h_type = K,
                  shouldNotify = (case lastNotifiedAt st K of None \<Rightarrow> True
                                  | Some t \<Rightarrow> t = 0 \<or> clock - t \<ge> cd * 60 * 1000),
                  errorCount = consecutiveCount st K + 1\<rparr>,
                st(K \<mapsto> \<lparr>occ_count = consecutiveCount st K + 1,
                           firstOccurrence =
                             (case st K of None \<Rightarrow> now | Some s \<Rightarrow> firstOccurrence s),
                           lastOccurrence = now,
                           lastNotification =
                             (if (case lastNotifiedAt st K of None \<Rightarrow> True
                                  | Some t \<Rightarrow> t = 0 \<or> clock - t \<ge> cd * 60 * 1000)
                              then Some now else lastNotifiedAt st K)\<rparr>))"
  using assms
  by (cases "st K")
     (auto simp: handleError_def shouldSendNotification_def lastNotifiedAt_def
                 consecutiveCount_def Let_def split: option.splits)

lemma three_failures:
  assumes K: "classifyError error = Inr K" and t: "0 < t"
  shows "\<exists>r1 r2 r3 st'.
           handleAll 30 Map.empty [(error, t), (error, t + 60000), (error, t + 120000)]
             = Inr ([r1, r2, r3], st')
           \<and> shouldNotify r1 \<and> \<not> shouldNotify r2 \<and> \<not> shouldNotify r3
           \<and> errorCount r1 = 1 \<and> errorCount r2 = 2 \<and> errorCount r3 = 3
           \<and> consecutiveCount st' K = 3"
  using t
  by (simp add: handleError_result [OF K] lastNotifiedAt_def consecutiveCount_def)

text \<open>
  Claim C1. A failure of kind \<open>K\<close> is handled without an exception. It is notified
  when the kind has no notification timestamp; when it has one, \<open>t\<close>, it is notified
  if and only if the clock read by the cooldown check is at least the cooldown
  (\<open>cd\<close> minutes) past \<open>t\<close>; a notified failure stamps the time of the call as the
  kind's notification timestamp, and the consecutive count grows by one. Timestamps are
  readings of \<open>Date.now()\<close>, milliseconds since 1970, hence not zero: the guard is a
  truthiness test and would take a stored zero for no timestamp. Three failures of
  \<open>K\<close> one minute apart, from the empty state and with a cooldown of 30 minutes, notify
  on the first only and count to 3.
\<close>

theorem C1_cooldown_rule:
  assumes "classifyError error = Inr K" and "0 < t0"
  shows "(\<exists>r st'. handleError cd st error now clock = Inr (r, st') \<and> h_type r = K
           \<and> (lastNotifiedAt st K = None \<longrightarrow> shouldNotify r)
           \<and> (\<forall>t. lastNotifiedAt st K = Some t \<and> t \<noteq> 0 \<longrightarrow>
                  (shouldNotify r \<longleftrightarrow> clock - t \<ge> cd * 60 * 1000))
           \<and> (shouldNotify r \<longrightarrow> lastNotifiedAt st' K = Some now)
           \<and> errorCount r = consecutiveCount st K + 1
           \<and> consecutiveCount st' K = consecutiveCount st K + 1)
       \<and> (\<exists>r1 r2 r3 st'.
           handleAll 30 Map.empty [(error, t0), (error, t0 + 60000), (error, t0 + 120000)]
             = Inr ([r1, r2, r3], st')
           \<and> shouldNotify r1 \<and> \<not> shouldNotify r2 \<and> \<not> shouldNotify r3
           \<and> errorCount r1 = 1 \<and> errorCount r2 = 2 \<and> errorCount r3 = 3
           \<and> consecutiveCount st' K = 3)"
proof (rule conjI)
  show "\<exists>r st'. handleError cd st error now clock = Inr (r, st') \<and> h_type r = K
           \<and> (lastNotifiedAt st K = None \<longrightarrow> shouldNotify r)
           \<and> (\<forall>t. lastNotifiedAt st K = Some t \<and> t \<noteq> 0 \<longrightarrow>
                  (shouldNotify r \<longleftrightarrow> clock - t \<ge> cd * 60 * 1000))
           \<and> (shouldNotify r \<longrightarrow> lastNotifiedAt st' K = Some now)
           \<and> errorCount r = consecutiveCount st K + 1
           \<and> consecutiveCount st' K = consecutiveCount st K + 1"
    unfolding handleError_result [OF assms(1)]
    by (auto simp: lastNotifiedAt_def consecutiveCount_def split: option.splits)
next
  show "\<exists>r1 r2 r3 st'.
           handleAll 30 Map.empty [(error, t0), (error, t0 + 60000), (error, t0 + 120000)]
             = Inr ([r1, r2, r3], st')
           \<and> shouldNotify r1 \<and> \<not> shouldNotify r2 \<and> \<not> shouldNotify r3
           \<and> errorCount r1 = 1 \<and> errorCount r2 = 2 \<and> errorCount r3 = 3
           \<and> consecutiveCount st' K = 3"
    by (rule three_failures [OF assms])
qed

text \<open>
  The rule at a timeout: first occurrence notified and stamped, a second failure one
  minute later silent, a failure thirty minutes later notified again.
\<close>

theorem C1_cooldown_rule_witness:
  "classifyError timeout_error = Inr TIMEOUT_ERROR \<and> (0::int) < 1700000000000
   \<and> (\<exists>r st'. handleError 30 Map.empty timeout_error 1700000000000 1700000000000 = Inr (r, st')
         \<and> shouldNotify r \<and> lastNotifiedAt st' TIMEOUT_ERROR = Some 1700000000000)
   \<and> (\<exists>r st'. handleError 30 notified_state timeout_error 1700000060000 1700000060000
                  = Inr (r, st') \<and> \<not> shouldNotify r \<and> errorCount r = 2)
   \<and> (\<exists>r st'. handleError 30 notified_state timeout_error 1700001800000 1700001800000
                  = Inr (r, st') \<and> shouldNotify r)"
proof -
  have k: "classifyError timeout_error = Inr TIMEOUT_ERROR"
    by (simp add: classifyError_def timeout_error_def)
  have p: "(0::int) < 1700000000000" by simp
  have e: "lastNotifiedAt Map.empty TIMEOUT_ERROR = None"
    by (simp add: lastNotifiedAt_def)
  have n: "lastNotifiedAt notified_state TIMEOUT_ERROR = Some 1700000000000"
          "consecutiveCount notified_state TIMEOUT_ERROR = 1"
    by (simp_all add: lastNotifiedAt_def consecutiveCount_def notified_state_def)
  have a: "\<exists>r st'. handleError 30 Map.empty timeout_error 1700000000000 1700000000000 = Inr (r, st')
         \<and> shouldNotify r \<and> lastNotifiedAt st' TIMEOUT_ERROR = Some 1700000000000"
    using C1_cooldown_rule [OF k p, of 30 Map.empty 1700000000000 1700000000000] e by blast
  have b: "\<exists>r st'. handleError 30 notified_state timeout_error 1700000060000 1700000060000
                  = Inr (r, st') \<and> \<not> shouldNotify r \<and> errorCount r = 2"
    using C1_cooldown_rule [OF k p, of 30 notified_state 1700000060000 1700000060000] n by auto
  have c: "\<exists>r st'. handleError 30 notified_state timeout_error 1700001800000 1700001800000
                  = Inr (r, st') \<and> shouldNotify r"
    using C1_cooldown_rule [OF k p, of 30 notified_state 1700001800000 1700001800000] n by auto
  from k p a b c show ?thesis by blast
qed

section \<open>Classification\<close>

text \<open>The classifier never answers with one of the two validation kinds.\<close>

lemma classifyError_no_validation_kind:
  "classifyError error \<noteq> Inr INVALID_RESPONSE \<and> classifyError error \<noteq> Inr NO_PIX_CODE"
  by (simp add: classifyError_def split: option.splits)

text \<open>An error that carries a message string is given a kind.\<close>

lemma classifyError_with_message:
  "message error = Some m \<Longrightarrow> \<exists>k. classifyError error = Inr k"
  by (simp add: classifyError_def split: option.splits)

text \<open>The classifier raises exactly when the message is missing and the code is not the abort code.\<close>

lemma classifyError_raises_iff:
  "classifyError error = Inl TypeError
     \<longleftrightarrow> code error \<noteq> Some ''ECONNABORTED'' \<and> message error = None"
  by (simp add: classifyError_def split: option.splits)

text \<open>
  Claim C2. A response that lacks \<open>pixCode\<close> makes \<open>validatePixResponse\<close> throw an
  error tagged \<open>NO_PIX_CODE\<close>, but \<open>classifyError\<close> does not read the tag: it answers
  \<open>UNKNOWN_ERROR\<close> for that error, and raises a \<open>TypeError\<close> for the object
  \<open>createPixTransaction\<close> throws in its place, whose message the spread has dropped.
\<close>

theorem C2_validation_failure_not_classified:
  "validatePixResponse data_without_pix_code = Inl no_pix_code_error
   \<and> classifyError no_pix_code_error = Inr UNKNOWN_ERROR
   \<and> createPixTransaction (Inr (data_without_pix_code, 120))
       = Inl (no_pix_code_error\<lparr>message := None\<rparr>)
   \<and> classifyError (no_pix_code_error\<lparr>message := None\<rparr>) = Inl TypeError"
  by (simp add: validatePixResponse_def requiredFields_def falsy_str_def
        data_without_pix_code_def no_pix_code_error_def classifyError_def msg_no_pix_code_def
        createPixTransaction_def spreadError_def)

text \<open>
  Claim C4. On an error object with HTTP status 500 and no \<open>message\<close>,
  \<open>classifyError\<close> raises a \<open>TypeError\<close> instead of returning a kind.
\<close>

theorem C4_classify_raises_without_message:
  "classifyError server_error_without_message = Inl TypeError"
  by (simp add: classifyError_def server_error_without_message_def)

section \<open>The check orchestrator\<close>

text \<open>
  Claim C3. A check that runs (inside the monitoring hours, not paused) and succeeds
  while the monitor is unhealthy completes, marks the monitor healthy, calls the
  notification service with a recovery alert whatever the cooldown and the error state
  are, and leaves the error state empty, so every kind's consecutive count is zero.
\<close>

theorem C3_recovery:
  assumes "isWithinMonitoringHours (startHour config) (endHour config) currentHour"
    and "\<not> isPaused m"
    and "createPixTransaction post = Inr result"
    and "\<not> isHealthy (stats m)"
  shows "\<exists>m'. runHealthCheck config post currentHour now clock m = (m', Completed)
           \<and> isHealthy (stats m')
           \<and> sent m' = sent m @ [RecoveryAlert]
           \<and> errorState m' = Map.empty
           \<and> (\<forall>k. consecutiveCount (errorState m') k = 0)"
  using assms
  by (simp add: runHealthCheck_def Let_def clearErrorState_def consecutiveCount_def)

text \<open>
  A monitor made unhealthy by two timeouts, one of them notified, recovers on a response
  that carries all four fields.
\<close>

theorem C3_recovery_witness:
  "isWithinMonitoringHours (startHour always_on) (endHour always_on) 10
   \<and> \<not> isPaused unhealthy_monitor
   \<and> createPixTransaction (Inr (good_data, 180))
        = Inr \<lparr>pr_data = good_data, pr_responseTime = 180\<rparr>
   \<and> \<not> isHealthy (stats unhealthy_monitor)
   \<and> (\<exists>m'. runHealthCheck always_on (Inr (good_data, 180)) 10 1700000120000 1700000120000
               unhealthy_monitor = (m', Completed)
           \<and> isHealthy (stats m')
           \<and> sent m' = [ErrorAlert TIMEOUT_ERROR, RecoveryAlert]
           \<and> errorState m' = Map.empty)"
proof -
  have a: "isWithinMonitoringHours (startHour always_on) (endHour always_on) 10"
    by (simp add: isWithinMonitoringHours_def always_on_def falsy_num_def)
  have b: "\<not> isPaused unhealthy_monitor" by (simp add: unhealthy_monitor_def)
  have c: "createPixTransaction (Inr (good_data, 180))
             = Inr \<lparr>pr_data = good_data, pr_responseTime = 180\<rparr>"
    by (simp add: createPixTransaction_def validatePixResponse_def requiredFields_def
          falsy_str_def good_data_def)
  have d: "\<not> isHealthy (stats unhealthy_monitor)" by (simp add: unhealthy_monitor_def)
  have s: "sent unhealthy_monitor = [ErrorAlert TIMEOUT_ERROR]"
    by (simp add: unhealthy_monitor_def)
  from C3_recovery [OF a b c d, of 1700000120000 1700000120000] s
  have "\<exists>m'. runHealthCheck always_on (Inr (good_data, 180)) 10 1700000120000 1700000120000
               unhealthy_monitor = (m', Completed)
           \<and> isHealthy (stats m')
           \<and> sent m' = [ErrorAlert TIMEOUT_ERROR, RecoveryAlert]
           \<and> errorState m' = Map.empty" by auto
  with a b c d show ?thesis by blast
qed

section \<open>The monitoring-hours window\<close>

text \<open>With both bounds set and not zero the window is the one configured.\<close>

lemma window_nonzero_bounds:
  assumes "s \<noteq> 0" and "e \<noteq> 0"
  shows "isWithinMonitoringHours (Some s) (Some e) h
           = (if e < s then s \<le> h \<or> h < e else s \<le> h \<and> h < e)"
  using assms by (simp add: isWithinMonitoringHours_def falsy_num_def)

text \<open>The window from 22 to 6: active at hours 23 and 2, inactive at hour 10.\<close>

lemma window_22_to_6:
  "isWithinMonitoringHours (Some 22) (Some 6) 23
   \<and> isWithinMonitoringHours (Some 22) (Some 6) 2
   \<and> \<not> isWithinMonitoringHours (Some 22) (Some 6) 10"
  by (simp add: isWithinMonitoringHours_def falsy_num_def)

text \<open>
  Claim C9. With start 22 and end 0 the window wraps and is \<open>[22, 24)\<close>; with start 0
  and end 6 it is \<open>[0, 6)\<close>. Hour 10 lies in neither, yet the check answers that
  monitoring is active in both configurations.
\<close>

theorem C9_window_with_hour_zero:
  "isWithinMonitoringHours (Some 22) (Some 0) 10
   \<and> isWithinMonitoringHours (Some 0) (Some 6) 10"
  by (simp add: isWithinMonitoringHours_def falsy_num_def)

text \<open>
  Claim C10. When a bound of the window is unset or is hour zero, monitoring is active
  at every hour.
\<close>

theorem C10_zero_or_unset_bound:
  assumes "sh = None \<or> sh = Some 0 \<or> eh = None \<or> eh = Some 0"
  shows "isWithinMonitoringHours sh eh currentHour"
  using assms by (auto simp: isWithinMonitoringHours_def falsy_num_def)

text \<open>A window from hour 0 to hour 6 is active at hour 10.\<close>

theorem C10_zero_or_unset_bound_witness:
  "(Some 0 = (None :: int option) \<or> Some 0 = Some (0::int) \<or> Some 6 = (None :: int option)
      \<or> Some 6 = Some (0::int))
   \<and> isWithinMonitoringHours (Some 0) (Some 6) 10"
proof -
  have h: "Some 0 = (None :: int option) \<or> Some 0 = Some (0::int)
             \<or> Some 6 = (None :: int option) \<or> Some 6 = Some (0::int)" by simp
  from h C10_zero_or_unset_bound [OF h, of 10] show ?thesis by blast
qed

section \<open>The metrics aggregator: current statistics\<close>

lemma current_recordResponseTime:
  "current (recordResponseTime cap now rt succ hasPix m) =
     \<lparr>cur_count = cur_count (current m) + 1,
      cur_totalTime = cur_totalTime (current m) + rt,
      cur_minTime = Math_min (cur_minTime (current m)) rt,
      cur_maxTime = max (cur_maxTime (current m)) rt,
      samples = (if length (samples (current m)) + 1 > cap
                 then slice_last cap (samples (current m) @ [sampleOf (now, rt, succ, hasPix)])
                 else samples (current m) @ [sampleOf (now, rt, succ, hasPix)])\<rparr>"
  by (simp add: recordResponseTime_def cleanOldData_def Let_def sampleOf_def)

lemma count_recordAll:
  "cur_count (current (recordAll cap m calls)) = cur_count (current m) + int (length calls)"
  by (induction calls arbitrary: m) (auto simp: current_recordResponseTime)

lemma total_recordAll:
  "cur_totalTime (current (recordAll cap m calls))
     = cur_totalTime (current m) + sum_list (map timeOf calls)"
  by (induction calls arbitrary: m) (auto simp: current_recordResponseTime timeOf_def)

lemma max_recordAll:
  "cur_maxTime (current (recordAll cap m calls))
     = fold max (map timeOf calls) (cur_maxTime (current m))"
  by (induction calls arbitrary: m) (auto simp: current_recordResponseTime timeOf_def max.commute)

lemma min_recordAll:
  "cur_minTime (current (recordAll cap m calls))
     = fold (\<lambda>x a. Math_min a x) (map timeOf calls) (cur_minTime (current m))"
  by (induction calls arbitrary: m) (auto simp: current_recordResponseTime timeOf_def)

lemma fold_Math_min_Some:
  "fold (\<lambda>x a. Math_min a x) xs (Some b) = Some (fold min xs b)"
  by (induction xs arbitrary: b) (auto simp: Math_min_def min.commute)

lemma fold_Math_min:
  "fold (\<lambda>x a. Math_min a x) xs None = (if xs = [] then None else Some (Min (set xs)))"
proof (cases xs)
  case Nil
  then show ?thesis by simp
next
  case (Cons a list)
  have "Math_min None a = Some a" by (simp add: Math_min_def)
  then have "fold (\<lambda>x a. Math_min a x) xs None = Some (fold min list a)"
    by (simp add: Cons fold_Math_min_Some)
  also have "fold min list a = Min (set xs)"
    by (simp only: Cons Min.set_eq_fold)
  finally show ?thesis by (simp add: Cons)
qed

lemma fold_max_nonneg:
  assumes "xs \<noteq> []" and "\<forall>x\<in>set xs. (0::int) \<le> x"
  shows "fold max xs 0 = Max (set xs)"
proof -
  have "fold max xs 0 = Max (set (0 # xs))"
    by (simp only: Max.set_eq_fold)
  also have "\<dots> = max 0 (Max (set xs))"
    using assms(1) by simp
  also have "\<dots> = Max (set xs)"
  proof -
    from assms(1) obtain x where "x \<in> set xs" by (cases xs) auto
    with assms(2) have "0 \<le> x" "x \<le> Max (set xs)" by auto
    then show ?thesis by simp
  qed
  finally show ?thesis .
qed

text \<open>\<open>Math.round\<close> of a quotient is the quotient plus one half, rounded down.\<close>

lemma Math_round_div_floor:
  assumes "0 < b"
  shows "Math_round_div a b = \<lfloor>real_of_int a / real_of_int b + 1 / 2\<rfloor>"
proof -
  have "real_of_int a / real_of_int b + 1 / 2 = real_of_int (2 * a + b) / real_of_int (2 * b)"
    using assms by (simp add: field_simps)
  then show ?thesis
    by (simp only: Math_round_div_def floor_divide_of_int_eq)
qed

text \<open>
  Claim C5, as stated, fails: after the samples 100 and 201 the average reported is 151,
  and their mean is 301/2.
\<close>

theorem C5_exact_mean_counterexample:
  "cs_average (getCurrentStats no_format (recordAll 1000 initialMetrics two_samples)) = 151
   \<and> real_of_int (sum_list (map timeOf two_samples)) / real (length two_samples) = 301 / 2
   \<and> real_of_int (cs_average (getCurrentStats no_format
         (recordAll 1000 initialMetrics two_samples)))
       \<noteq> real_of_int (sum_list (map timeOf two_samples)) / real (length two_samples)"
  by (simp add: getCurrentStats_def two_samples_def current_recordResponseTime
        initialMetrics_def Math_round_div_def Let_def timeOf_def)

text \<open>
  Claim C5, amended. After \<open>n\<close> calls from the initial metrics the count is \<open>n\<close>;
  with no call the average, the minimum and the maximum are 0; otherwise the average is
  the mean of the recorded response times rounded to the nearest integer, a half going
  up, the minimum is the least recorded value and, response times being non-negative,
  the maximum is the greatest.
\<close>

theorem C5_rounded_mean:
  "cs_count (getCurrentStats fmt (recordAll cap initialMetrics calls)) = int (length calls)
   \<and> (calls = [] \<longrightarrow>
        cs_average (getCurrentStats fmt (recordAll cap initialMetrics calls)) = 0
        \<and> cs_min (getCurrentStats fmt (recordAll cap initialMetrics calls)) = 0
        \<and> cs_max (getCurrentStats fmt (recordAll cap initialMetrics calls)) = 0)
   \<and> (calls \<noteq> [] \<longrightarrow>
        cs_average (getCurrentStats fmt (recordAll cap initialMetrics calls))
          = \<lfloor>real_of_int (sum_list (map timeOf calls)) / real (length calls) + 1 / 2\<rfloor>
        \<and> cs_min (getCurrentStats fmt (recordAll cap initialMetrics calls))
          = Min (set (map timeOf calls)))
   \<and> (calls \<noteq> [] \<and> (\<forall>c\<in>set calls. 0 \<le> timeOf c) \<longrightarrow>
        cs_max (getCurrentStats fmt (recordAll cap initialMetrics calls))
          = Max (set (map timeOf calls)))"
proof -
  let ?m = "recordAll cap initialMetrics calls"
  have cnt: "cur_count (current ?m) = int (length calls)"
    by (simp add: count_recordAll initialMetrics_def)
  have tot: "cur_totalTime (current ?m) = sum_list (map timeOf calls)"
    by (simp add: total_recordAll initialMetrics_def)
  have mx: "cur_maxTime (current ?m) = fold max (map timeOf calls) 0"
    by (simp add: max_recordAll initialMetrics_def)
  have mn: "cur_minTime (current ?m) = fold (\<lambda>x a. Math_min a x) (map timeOf calls) None"
    by (simp add: min_recordAll initialMetrics_def)
  have c1: "cs_count (getCurrentStats fmt ?m) = int (length calls)"
    by (simp add: getCurrentStats_def Let_def cnt)
  have c2: "calls = [] \<longrightarrow> cs_average (getCurrentStats fmt ?m) = 0
        \<and> cs_min (getCurrentStats fmt ?m) = 0 \<and> cs_max (getCurrentStats fmt ?m) = 0"
    by (simp add: getCurrentStats_def Let_def initialMetrics_def)
  have c3: "calls \<noteq> [] \<longrightarrow>
        cs_average (getCurrentStats fmt ?m)
          = \<lfloor>real_of_int (sum_list (map timeOf calls)) / real (length calls) + 1 / 2\<rfloor>
        \<and> cs_min (getCurrentStats fmt ?m) = Min (set (map timeOf calls))"
  proof
    assume ne: "calls \<noteq> []"
    then have pos: "0 < int (length calls)" by simp
    have "cs_average (getCurrentStats fmt ?m)
            = Math_round_div (sum_list (map timeOf calls)) (int (length calls))"
      using ne by (simp add: getCurrentStats_def Let_def cnt tot)
    also have "\<dots> = \<lfloor>real_of_int (sum_list (map timeOf calls)) / real (length calls) + 1 / 2\<rfloor>"
      using Math_round_div_floor [OF pos] by simp
    finally have a: "cs_average (getCurrentStats fmt ?m)
          = \<lfloor>real_of_int (sum_list (map timeOf calls)) / real (length calls) + 1 / 2\<rfloor>" .
    have "map timeOf calls \<noteq> []" using ne by simp
    then have "cur_minTime (current ?m) = Some (Min (set (map timeOf calls)))"
      unfolding mn by (simp add: fold_Math_min)
    then have b: "cs_min (getCurrentStats fmt ?m) = Min (set (map timeOf calls))"
      using ne by (simp add: getCurrentStats_def Let_def cnt)
    from a b show "cs_average (getCurrentStats fmt ?m)
          = \<lfloor>real_of_int (sum_list (map timeOf calls)) / real (length calls) + 1 / 2\<rfloor>
        \<and> cs_min (getCurrentStats fmt ?m) = Min (set (map timeOf calls))" by simp
  qed
  have c4: "calls \<noteq> [] \<and> (\<forall>c\<in>set calls. 0 \<le> timeOf c) \<longrightarrow>
        cs_max (getCurrentStats fmt ?m) = Max (set (map timeOf calls))"
  proof
    assume h: "calls \<noteq> [] \<and> (\<forall>c\<in>set calls. 0 \<le> timeOf c)"
    then have "map timeOf calls \<noteq> []" "\<forall>x\<in>set (map timeOf calls). 0 \<le> x" by auto
    then have "fold max (map timeOf calls) 0 = Max (set (map timeOf calls))"
      by (rule fold_max_nonneg)
    with h show "cs_max (getCurrentStats fmt ?m) = Max (set (map timeOf calls))"
      by (simp add: getCurrentStats_def Let_def cnt mx)
  qed
  from c1 c2 c3 c4 show ?thesis by blast
qed

text \<open>The samples 100 and 201: count 2, average 151, minimum 100, maximum 201.\<close>

theorem C5_rounded_mean_witness:
  "cs_count (getCurrentStats no_format (recordAll 1000 initialMetrics two_samples)) = 2
   \<and> cs_average (getCurrentStats no_format (recordAll 1000 initialMetrics two_samples)) = 151
   \<and> cs_min (getCurrentStats no_format (recordAll 1000 initialMetrics two_samples)) = 100
   \<and> cs_max (getCurrentStats no_format (recordAll 1000 initialMetrics two_samples)) = 201"
proof -
  have ne: "two_samples \<noteq> []" by (simp add: two_samples_def)
  have nn: "\<forall>c\<in>set two_samples. 0 \<le> timeOf c" by (simp add: two_samples_def timeOf_def)
  have l: "length two_samples = 2" by (simp add: two_samples_def)
  have t: "map timeOf two_samples = [100, 201]" by (simp add: two_samples_def timeOf_def)
  have f: "\<lfloor>real_of_int (sum_list [100, 201]) / real 2 + 1 / 2\<rfloor> = (151::int)" by simp
  from C5_rounded_mean [of no_format 1000 two_samples] ne nn f show ?thesis
    by (simp add: l t)
qed

section \<open>The metrics aggregator: the ring buffer\<close>

lemma slice_last_drop: "0 < k \<Longrightarrow> slice_last k xs = drop (length xs - k) xs"
  by (simp add: slice_last_def)

lemma samples_recordResponseTime:
  assumes "0 < cap"
  shows "samples (current (recordResponseTime cap now rt succ hasPix m))
           = drop (length (samples (current m)) + 1 - cap)
               (samples (current m) @ [sampleOf (now, rt, succ, hasPix)])"
  using assms by (simp add: current_recordResponseTime slice_last_drop)

text \<open>The buffer holds the last \<open>cap\<close> of the samples pushed so far.\<close>

lemma samples_recordAll:
  assumes "0 < cap"
  shows "length (samples (current m)) \<le> cap \<Longrightarrow>
         samples (current (recordAll cap m calls))
           = drop (length (samples (current m)) + length calls - cap)
               (samples (current m) @ map sampleOf calls)"
proof (induction calls arbitrary: m)
  case Nil
  then show ?case by simp
next
  case (Cons c calls)
  obtain now rt succ hasPix where c: "c = (now, rt, succ, hasPix)"
    by (cases c) auto
  let ?xs = "samples (current m)"
  let ?d = "length ?xs + 1 - cap"
  let ?m' = "recordResponseTime cap now rt succ hasPix m"
  have s': "samples (current ?m') = drop ?d (?xs @ [sampleOf c])"
    using assms by (simp add: samples_recordResponseTime c)
  have len: "length (samples (current ?m')) = length ?xs + 1 - ?d"
    by (simp add: s')
  have le: "length (samples (current ?m')) \<le> cap"
    using Cons.prems by (simp add: len)
  have "samples (current (recordAll cap m (c # calls)))
          = samples (current (recordAll cap ?m' calls))"
    by (simp add: c)
  also have "\<dots> = drop (length (samples (current ?m')) + length calls - cap)
                     (samples (current ?m') @ map sampleOf calls)"
    by (rule Cons.IH [OF le])
  also have "samples (current ?m') @ map sampleOf calls
               = drop ?d (?xs @ map sampleOf (c # calls))"
  proof -
    have "drop ?d ((?xs @ [sampleOf c]) @ map sampleOf calls)
            = drop ?d (?xs @ [sampleOf c])
                @ drop (?d - length (?xs @ [sampleOf c])) (map sampleOf calls)"
      by (rule drop_append)
    moreover have "?d - length (?xs @ [sampleOf c]) = 0" by simp
    ultimately show ?thesis by (simp add: s')
  qed
  also have "drop (length (samples (current ?m')) + length calls - cap)
               (drop ?d (?xs @ map sampleOf (c # calls)))
             = drop (length ?xs + length (c # calls) - cap) (?xs @ map sampleOf (c # calls))"
  proof -
    have "length (samples (current ?m')) + length calls - cap + ?d
            = length ?xs + length (c # calls) - cap"
      using Cons.prems assms by (simp add: len)
    then show ?thesis by (simp only: drop_drop)
  qed
  finally show ?case .
qed

lemma slice_last_10_drop:
  assumes "10 \<le> cap" and "cap < length xs"
  shows "slice_last 10 (drop (length xs - cap) xs) = slice_last 10 xs"
proof -
  have "length xs - (length xs - cap) - 10 + (length xs - cap) = length xs - 10"
    using assms by arith
  then show ?thesis
    by (simp add: slice_last_def)
qed

lemma view_sampleOf:
  "(\<lambda>s. (fmt (s_time s), responseTime s, success s)) \<circ> sampleOf = viewOf fmt"
  by (auto simp: sampleOf_def viewOf_def fun_eq_iff)

lemma slice_last_map: "slice_last k (map f xs) = map f (slice_last k xs)"
  by (simp add: slice_last_def drop_map)

text \<open>
  Claim C7. After any sequence of calls from the initial metrics the buffer holds at most
  \<open>cap\<close> samples (\<open>cap\<close> is 1000 in the source): it holds the samples of the last
  \<open>cap\<close> calls in the order recorded, all of them while no more than \<open>cap\<close> calls were
  made, so on overflow it is the oldest that are evicted. Once more than \<open>cap\<close> calls
  have been made, \<open>cap\<close> being at least 10, \<open>last10\<close> is the last ten calls, oldest
  first.
\<close>

theorem C7_ring_buffer:
  assumes "0 < cap"
  shows "length (samples (current (recordAll cap initialMetrics calls))) \<le> cap
         \<and> length (samples (current (recordAll cap initialMetrics calls)))
             = min (length calls) cap
         \<and> samples (current (recordAll cap initialMetrics calls))
             = drop (length calls - cap) (map sampleOf calls)
         \<and> (10 \<le> cap \<and> cap < length calls \<longrightarrow>
              last10 (getCurrentStats fmt (recordAll cap initialMetrics calls))
                = map (viewOf fmt) (slice_last 10 calls)
              \<and> length (last10 (getCurrentStats fmt (recordAll cap initialMetrics calls))) = 10)"
proof -
  let ?m = "recordAll cap initialMetrics calls"
  have e: "length (samples (current initialMetrics)) \<le> cap"
    by (simp add: initialMetrics_def)
  have s: "samples (current ?m) = drop (length calls - cap) (map sampleOf calls)"
    using samples_recordAll [OF assms e, of calls] by (simp add: initialMetrics_def)
  have a: "length (samples (current ?m)) \<le> cap"
    by (simp add: s)
  have a': "length (samples (current ?m)) = min (length calls) cap"
    by (simp add: s)
  have b: "10 \<le> cap \<and> cap < length calls \<longrightarrow>
              last10 (getCurrentStats fmt ?m) = map (viewOf fmt) (slice_last 10 calls)
              \<and> length (last10 (getCurrentStats fmt ?m)) = 10"
  proof
    assume h: "10 \<le> cap \<and> cap < length calls"
    then have "calls \<noteq> []" by auto
    then have ne: "cur_count (current ?m) \<noteq> 0"
      by (simp add: count_recordAll initialMetrics_def)
    have "slice_last 10 (samples (current ?m)) = slice_last 10 (map sampleOf calls)"
      unfolding s using slice_last_10_drop [of cap "map sampleOf calls"] h by simp
    then have "last10 (getCurrentStats fmt ?m)
                 = map (\<lambda>s. (fmt (s_time s), responseTime s, success s))
                       (map sampleOf (slice_last 10 calls))"
      using ne by (simp add: getCurrentStats_def Let_def slice_last_map)
    then have l: "last10 (getCurrentStats fmt ?m) = map (viewOf fmt) (slice_last 10 calls)"
      by (simp add: view_sampleOf)
    have "length (slice_last 10 calls) = 10"
      using h by (simp add: slice_last_def)
    with l show "last10 (getCurrentStats fmt ?m) = map (viewOf fmt) (slice_last 10 calls)
              \<and> length (last10 (getCurrentStats fmt ?m)) = 10" by simp
  qed
  from a a' s b show ?thesis by blast
qed

text \<open>
  With capacity 1000 and the 1001 calls numbered 0 to 1000, the buffer holds the calls
  1 to 1000, the call 0 being evicted, and \<open>last10\<close> shows the calls 991 to 1000.
\<close>

theorem C7_ring_buffer_witness:
  "(0::nat) < 1000 \<and> (10::nat) \<le> 1000 \<and> 1000 < length (map call_at [0..<1001])
   \<and> length (samples (current (recordAll 1000 initialMetrics (map call_at [0..<1001])))) = 1000
   \<and> samples (current (recordAll 1000 initialMetrics (map call_at [0..<1001])))
        = map sampleOf (map call_at [1..<1001])
   \<and> last10 (getCurrentStats no_format (recordAll 1000 initialMetrics (map call_at [0..<1001])))
        = map (viewOf no_format) (map call_at [991..<1001])"
proof -
  have a: "(0::nat) < 1000" by simp
  have b: "(10::nat) \<le> 1000 \<and> 1000 < length (map call_at [0..<1001])" by simp
  have c: "slice_last 10 (map call_at [0..<1001]) = map call_at [991..<1001]"
    by (simp add: slice_last_def drop_map)
  have d: "drop (length (map call_at [0..<1001]) - 1000) (map sampleOf (map call_at [0..<1001]))
             = map sampleOf (map call_at [1..<1001])"
    by (simp add: drop_map)
  have l: "min (length (map call_at [0..<1001])) 1000 = 1000" by simp
  note t = C7_ring_buffer [OF a, of "map call_at [0..<1001]" no_format]
  from t have "length (samples (current (recordAll 1000 initialMetrics
                 (map call_at [0..<1001])))) = min (length (map call_at [0..<1001])) 1000"
    by blast
  then have x: "length (samples (current (recordAll 1000 initialMetrics
                      (map call_at [0..<1001])))) = 1000"
    using l by (rule trans)
  from t have "samples (current (recordAll 1000 initialMetrics (map call_at [0..<1001])))
        = drop (length (map call_at [0..<1001]) - 1000) (map sampleOf (map call_at [0..<1001]))"
    by blast
  then have y: "samples (current (recordAll 1000 initialMetrics (map call_at [0..<1001])))
        = map sampleOf (map call_at [1..<1001])"
    using d by (rule trans)
  from t b have "last10 (getCurrentStats no_format
        (recordAll 1000 initialMetrics (map call_at [0..<1001])))
        = map (viewOf no_format) (slice_last 10 (map call_at [0..<1001]))"
    by blast
  then have z: "last10 (getCurrentStats no_format
        (recordAll 1000 initialMetrics (map call_at [0..<1001])))
        = map (viewOf no_format) (map call_at [991..<1001])"
    by (simp only: c)
  from a b x y z show ?thesis by blast
qed

section \<open>Rounding to a double\<close>










section \<open>The metrics aggregator: percentiles and trend\<close>
















text \<open>
  The trend at the boundary: a recent average of 63/5 against an older one of 14 is
  lower by ten percent exactly, and the percent computed in doubles lies below -10.
\<close>

lemma trend_percent_at_boundary:
  "(63 / 5 - 14) / 14 * 100 = (- 10 :: rat)
   \<and> double_mul (double_div (double_sub (double_div 63 5) 14) 14) 100 < - 10"
  by code_simp

text \<open>
  Claim C8. A sample of 1000 ms, then one of 100 ms 25 hours later. At the second sample
  the buckets 6 to 24 hours ago hold no sample, so the older window of the claim is empty
  and the trend should be stable at 0 percent. The older average of the code, taken over
  the 24 buckets 6 to 29 hours ago, is 1000, and the analysis reports an improving trend
  of 90 percent.
\<close>

theorem C8_older_window_reaches_29_hours:
  "1700090000000 div 3600000 = (472247::int)
   \<and> calculateRecentAverage (recordAll 1000 initialMetrics slow_then_fast) 472247 19 6 = 0
   \<and> calculateRecentAverage (recordAll 1000 initialMetrics slow_then_fast) 472247 24 6 = 1000
   \<and> calculateRecentAverage (recordAll 1000 initialMetrics slow_then_fast) 472247 6 0 = 100
   \<and> an_trend (getPerformanceAnalysis no_format 472247
         (recordAll 1000 initialMetrics slow_then_fast)) = Melhorando
   \<and> trendPercent (getPerformanceAnalysis no_format 472247
         (recordAll 1000 initialMetrics slow_then_fast)) = 90"
  by code_simp

end
